theory Spec2Isabelle
  imports Complex_Main "HOL-Library.AList"
begin

section \<open>Python values held by the store\<close>

text \<open>
  \<^verbatim>\<open>JSONStorage\<close> keeps a Python \<^verbatim>\<open>dict\<close> from keys to arbitrary Python objects and
  dispatches on them with \<^verbatim>\<open>isinstance\<close>. The values are modelled as a tagged union.
  Store keys and dictionary fields are strings. Floats (the clock, expiry timestamps)
  are idealised as reals: comparisons are exact, rounding of \<^verbatim>\<open>+\<close> is not modelled.
  A \<^verbatim>\<open>dict\<close> is an association list in insertion order, a \<^verbatim>\<open>set\<close> is the list of
  its elements in iteration order (without repetitions up to Python equality).
  Values are copied, not shared: aliasing of a stored object with an object the caller
  still holds is outside the model.
\<close>

datatype pyval =
    PNone
  | PBool bool
  | PInt int
  | PFloat real
  | PStr string
  | PList "pyval list"
  | PTuple "pyval list"
  | PSet "pyval list"
  | PDict "(string \<times> pyval) list"

datatype error = TypeError | KeyError | AttributeError | ValueError

text \<open>\<^verbatim>\<open>bool\<close> is a subclass of \<^verbatim>\<open>int\<close>; numbers compare across \<^verbatim>\<open>bool\<close>, \<^verbatim>\<open>int\<close>, \<^verbatim>\<open>float\<close>.\<close>

fun num_of :: "pyval \<Rightarrow> real option" where
  "num_of (PBool b) = Some (if b then 1 else 0)"
| "num_of (PInt i) = Some (of_int i)"
| "num_of (PFloat r) = Some r"
| "num_of _ = None"

fun is_int :: "pyval \<Rightarrow> bool" where
  "is_int (PInt _) = True"
| "is_int (PBool _) = True"
| "is_int _ = False"

fun is_str :: "pyval \<Rightarrow> bool" where
  "is_str (PStr _) = True"
| "is_str _ = False"

fun is_list :: "pyval \<Rightarrow> bool" where
  "is_list (PList _) = True"
| "is_list _ = False"

fun is_set :: "pyval \<Rightarrow> bool" where
  "is_set (PSet _) = True"
| "is_set _ = False"

fun is_dict :: "pyval \<Rightarrow> bool" where
  "is_dict (PDict _) = True"
| "is_dict _ = False"


text \<open>Python's \<^verbatim>\<open>==\<close>.\<close>

fun py_eq :: "pyval \<Rightarrow> pyval \<Rightarrow> bool"
  and py_eq_list :: "pyval list \<Rightarrow> pyval list \<Rightarrow> bool" where
  "py_eq PNone w = (w = PNone)"
| "py_eq (PBool b) w = (num_of w = Some (if b then 1 else 0))"
| "py_eq (PInt i) w = (num_of w = Some (of_int i))"
| "py_eq (PFloat r) w = (num_of w = Some r)"
| "py_eq (PStr s) w = (w = PStr s)"
| "py_eq (PList xs) w = (case w of PList ys \<Rightarrow> py_eq_list xs ys | _ \<Rightarrow> False)"
| "py_eq (PTuple xs) w = (case w of PTuple ys \<Rightarrow> py_eq_list xs ys | _ \<Rightarrow> False)"
| "py_eq (PSet xs) w =
     (case w of PSet ys \<Rightarrow>
        length xs = length ys \<and> list_all (\<lambda>x. list_ex (\<lambda>y. py_eq x y) ys) xs
      | _ \<Rightarrow> False)"
| "py_eq (PDict d) w =
     (case w of PDict e \<Rightarrow>
        length d = length e \<and>
        list_all (\<lambda>(k, x). list_ex (\<lambda>(k', y). k = k' \<and> py_eq x y) e) d
      | _ \<Rightarrow> False)"
| "py_eq_list [] ys = (ys = [])"
| "py_eq_list (x # xs) ys =
     (case ys of [] \<Rightarrow> False | y # ys' \<Rightarrow> py_eq x y \<and> py_eq_list xs ys')"

text \<open>Python's \<^verbatim>\<open><\<close> on strings compares code points lexicographically.\<close>

fun str_lt :: "string \<Rightarrow> string \<Rightarrow> bool" where
  "str_lt [] t = (t \<noteq> [])"
| "str_lt (c # s) t =
     (case t of [] \<Rightarrow> False
      | d # t' \<Rightarrow> (of_char c :: nat) < of_char d \<or> (c = d \<and> str_lt s t'))"

definition num_lt :: "real \<Rightarrow> pyval \<Rightarrow> error + bool" where
  "num_lt r w = (case num_of w of None \<Rightarrow> Inl TypeError | Some q \<Rightarrow> Inr (r < q))"

text \<open>
  Python's \<^verbatim>\<open><\<close>: numbers with numbers, strings with strings, sequences of one kind
  lexicographically (the first pair that is not \<^verbatim>\<open>==\<close> decides), sets by proper
  inclusion; every other combination raises \<^verbatim>\<open>TypeError\<close>.
\<close>

fun py_lt :: "pyval \<Rightarrow> pyval \<Rightarrow> error + bool"
  and py_lt_seq :: "pyval list \<Rightarrow> pyval list \<Rightarrow> error + bool" where
  "py_lt PNone w = Inl TypeError"
| "py_lt (PBool b) w = num_lt (if b then 1 else 0) w"
| "py_lt (PInt i) w = num_lt (of_int i) w"
| "py_lt (PFloat r) w = num_lt r w"
| "py_lt (PStr s) w = (case w of PStr t \<Rightarrow> Inr (str_lt s t) | _ \<Rightarrow> Inl TypeError)"
| "py_lt (PList xs) w = (case w of PList ys \<Rightarrow> py_lt_seq xs ys | _ \<Rightarrow> Inl TypeError)"
| "py_lt (PTuple xs) w = (case w of PTuple ys \<Rightarrow> py_lt_seq xs ys | _ \<Rightarrow> Inl TypeError)"
| "py_lt (PSet xs) w =
     (case w of PSet ys \<Rightarrow>
        Inr (length xs < length ys \<and> list_all (\<lambda>x. list_ex (\<lambda>y. py_eq x y) ys) xs)
      | _ \<Rightarrow> Inl TypeError)"
| "py_lt (PDict d) w = Inl TypeError"
| "py_lt_seq [] ys = Inr (ys \<noteq> [])"
| "py_lt_seq (x # xs) ys =
     (case ys of [] \<Rightarrow> Inr False
      | y # ys' \<Rightarrow> if py_eq x y then py_lt_seq xs ys' else py_lt x y)"

text \<open>
  \<^verbatim>\<open>list.sort()\<close>: a stable sort that only uses \<^verbatim>\<open><\<close>. It is modelled as a stable
  insertion sort whose comparisons may raise. CPython's own algorithm makes fewer
  comparisons; the two agree whenever every pair of elements is comparable.
\<close>

fun py_insort :: "pyval \<Rightarrow> pyval list \<Rightarrow> error + pyval list" where
  "py_insort x [] = Inr [x]"
| "py_insort x (y # ys) =
     (case py_lt x y of
        Inl e \<Rightarrow> Inl e
      | Inr True \<Rightarrow> Inr (x # y # ys)
      | Inr False \<Rightarrow>
          (case py_insort x ys of Inl e \<Rightarrow> Inl e | Inr zs \<Rightarrow> Inr (y # zs)))"

fun py_sort_acc :: "pyval list \<Rightarrow> pyval list \<Rightarrow> error + pyval list" where
  "py_sort_acc acc [] = Inr acc"
| "py_sort_acc acc (x # xs) =
     (case py_insort x acc of Inl e \<Rightarrow> Inl e | Inr acc' \<Rightarrow> py_sort_acc acc' xs)"

definition py_sort :: "pyval list \<Rightarrow> error + pyval list" where
  "py_sort xs = py_sort_acc [] xs"

text \<open>Hashable values: everything but lists, sets and dicts (and tuples holding them).\<close>

fun hashable :: "pyval \<Rightarrow> bool" where
  "hashable (PList _) = False"
| "hashable (PSet _) = False"
| "hashable (PDict _) = False"
| "hashable (PTuple xs) = list_all hashable xs"
| "hashable _ = True"

fun starts_with :: "string \<Rightarrow> string \<Rightarrow> bool" where
  "starts_with [] s = True"
| "starts_with (c # t) s = (case s of [] \<Rightarrow> False | d # s' \<Rightarrow> c = d \<and> starts_with t s')"

fun substring :: "string \<Rightarrow> string \<Rightarrow> bool" where
  "substring t [] = (t = [])"
| "substring t (c # s) = (starts_with t (c # s) \<or> substring t s)"

text \<open>
  \<^verbatim>\<open>value in container\<close>. Strings test for a substring, lists and tuples compare the
  elements with \<^verbatim>\<open>==\<close>, sets and dicts hash the value first (a set looked up in a set
  is retried as a frozenset, which no modelled set holds), numbers and \<^verbatim>\<open>None\<close> are
  not containers.
\<close>

fun py_in :: "pyval \<Rightarrow> pyval \<Rightarrow> error + bool" where
  "py_in v (PStr s) = (case v of PStr t \<Rightarrow> Inr (substring t s) | _ \<Rightarrow> Inl TypeError)"
| "py_in v (PList xs) = Inr (list_ex (\<lambda>y. py_eq y v) xs)"
| "py_in v (PTuple xs) = Inr (list_ex (\<lambda>y. py_eq y v) xs)"
| "py_in v (PSet xs) =
     (if hashable v then Inr (list_ex (\<lambda>y. py_eq y v) xs)
      else if is_set v then Inr False else Inl TypeError)"
| "py_in v (PDict d) =
     (if hashable v then Inr (case v of PStr f \<Rightarrow> f \<in> set (map fst d) | _ \<Rightarrow> False)
      else Inl TypeError)"
| "py_in v _ = Inl TypeError"

text \<open>\<^verbatim>\<open>set.add\<close>, \<^verbatim>\<open>set(list)\<close>, and \<^verbatim>\<open>remove\<close> of the first equal element.\<close>

definition set_add :: "pyval \<Rightarrow> pyval list \<Rightarrow> pyval list" where
  "set_add x xs = (if list_ex (\<lambda>y. py_eq y x) xs then xs else xs @ [x])"


fun py_remove :: "pyval \<Rightarrow> pyval list \<Rightarrow> pyval list" where
  "py_remove x [] = []"
| "py_remove x (y # ys) = (if py_eq y x then ys else y # py_remove x ys)"

text \<open>\<^verbatim>\<open>v + i\<close> for an integer \<^verbatim>\<open>i\<close>.\<close>

fun py_add_int :: "pyval \<Rightarrow> int \<Rightarrow> error + pyval" where
  "py_add_int (PInt j) i = Inr (PInt (j + i))"
| "py_add_int (PBool b) i = Inr (PInt ((if b then 1 else 0) + i))"
| "py_add_int (PFloat r) i = Inr (PFloat (r + of_int i))"
| "py_add_int _ i = Inl TypeError"

text \<open>
  \<^verbatim>\<open>xs[i]\<close> (None of the option type stands for \<^verbatim>\<open>IndexError\<close>) and the slice
  \<^verbatim>\<open>xs[start:stop]\<close>: a negative bound counts from the end, then both are clamped to
  the list.
\<close>

definition py_index :: "'a list \<Rightarrow> int \<Rightarrow> 'a option" where
  "py_index xs i =
     (let n = int (length xs); j = (if i < 0 then i + n else i)
      in if 0 \<le> j \<and> j < n then Some (xs ! nat j) else None)"

definition slice_bound :: "int \<Rightarrow> int \<Rightarrow> int" where
  "slice_bound n i = (if i < 0 then max (i + n) 0 else min i n)"

definition py_slice :: "'a list \<Rightarrow> int \<Rightarrow> int \<Rightarrow> 'a list" where
  "py_slice xs start stop =
     (let n = int (length xs); lo = slice_bound n start; hi = slice_bound n stop
      in take (nat (hi - lo)) (drop (nat lo) xs))"

text \<open>
  \<^verbatim>\<open>for s, v in ...\<close> unpacks each element into exactly two items: a sequence, string,
  set or dict (its keys) of length two. Another length raises \<^verbatim>\<open>ValueError\<close>, a value
  that cannot be iterated raises \<^verbatim>\<open>TypeError\<close>.
\<close>

fun unpack2 :: "pyval \<Rightarrow> error + (pyval \<times> pyval)" where
  "unpack2 (PTuple xs) = (case xs of [a, b] \<Rightarrow> Inr (a, b) | _ \<Rightarrow> Inl ValueError)"
| "unpack2 (PList xs) = (case xs of [a, b] \<Rightarrow> Inr (a, b) | _ \<Rightarrow> Inl ValueError)"
| "unpack2 (PSet xs) = (case xs of [a, b] \<Rightarrow> Inr (a, b) | _ \<Rightarrow> Inl ValueError)"
| "unpack2 (PStr s) = (case s of [a, b] \<Rightarrow> Inr (PStr [a], PStr [b]) | _ \<Rightarrow> Inl ValueError)"
| "unpack2 (PDict d) =
     (case d of [(a, _), (b, _)] \<Rightarrow> Inr (PStr a, PStr b) | _ \<Rightarrow> Inl ValueError)"
| "unpack2 _ = Inl TypeError"

section \<open>The snapshot file\<close>

text \<open>
  The file holds one JSON document. The text that \<^verbatim>\<open>json.dump\<close> writes and
  \<^verbatim>\<open>json.load\<close> parses is abstracted to the JSON value it denotes.
\<close>

datatype json =
    JNull
  | JBool bool
  | JInt int
  | JFloat real
  | JStr string
  | JArr "json list"
  | JObj "(string \<times> json) list"

text \<open>
  \<^verbatim>\<open>NoFile\<close>: the file does not exist. \<^verbatim>\<open>Garbage\<close>: the file is not a JSON document;
  this is what a \<^verbatim>\<open>json.dump\<close> that raises leaves behind, since the file was truncated
  on opening and is written piecewise.
\<close>

datatype snapfile = NoFile | Content json | Garbage

text \<open>
  The encoder of \<^verbatim>\<open>json.dump\<close>: tuples are written as arrays, a \<^verbatim>\<open>set\<close> is not
  serialisable and raises \<^verbatim>\<open>TypeError\<close>.
\<close>

fun dump_val :: "pyval \<Rightarrow> error + json"
  and dump_list :: "pyval list \<Rightarrow> error + json list"
  and dump_items :: "(string \<times> pyval) list \<Rightarrow> error + (string \<times> json) list" where
  "dump_val PNone = Inr JNull"
| "dump_val (PBool b) = Inr (JBool b)"
| "dump_val (PInt i) = Inr (JInt i)"
| "dump_val (PFloat r) = Inr (JFloat r)"
| "dump_val (PStr s) = Inr (JStr s)"
| "dump_val (PList xs) = (case dump_list xs of Inl e \<Rightarrow> Inl e | Inr js \<Rightarrow> Inr (JArr js))"
| "dump_val (PTuple xs) = (case dump_list xs of Inl e \<Rightarrow> Inl e | Inr js \<Rightarrow> Inr (JArr js))"
| "dump_val (PSet xs) = Inl TypeError"
| "dump_val (PDict d) = (case dump_items d of Inl e \<Rightarrow> Inl e | Inr js \<Rightarrow> Inr (JObj js))"
| "dump_list [] = Inr []"
| "dump_list (x # xs) =
     (case dump_val x of Inl e \<Rightarrow> Inl e
      | Inr j \<Rightarrow> (case dump_list xs of Inl e \<Rightarrow> Inl e | Inr js \<Rightarrow> Inr (j # js)))"
| "dump_items [] = Inr []"
| "dump_items (kv # d) =
     (case dump_val (snd kv) of Inl e \<Rightarrow> Inl e
      | Inr j \<Rightarrow> (case dump_items d of Inl e \<Rightarrow> Inl e | Inr js \<Rightarrow> Inr ((fst kv, j) # js)))"



section \<open>The storage engine\<close>

text \<open>
  The engine is the in-memory dict \<^verbatim>\<open>self.storage\<close> and the file \<^verbatim>\<open>self.filename\<close>.
  Every method takes the engine and returns the engine it leaves behind together with
  its result or the exception it raises; a method that raises after it has changed
  \<^verbatim>\<open>self.storage\<close> returns the changed engine. The lock plays no role in a sequential
  run and is left out.
\<close>

record engine =
  storage :: "(string \<times> pyval) list"
  disk :: snapfile




text \<open>\<^verbatim>\<open>_save_storage\<close>: top-level sets are written as lists.\<close>

definition save_entry :: "pyval \<Rightarrow> pyval" where
  "save_entry v = (case v of PSet xs \<Rightarrow> PList xs | _ \<Rightarrow> v)"

definition snapshot :: "(string \<times> pyval) list \<Rightarrow> error + json" where
  "snapshot st = dump_val (PDict (map (\<lambda>kv. (fst kv, save_entry (snd kv))) st))"

definition save_storage :: "engine \<Rightarrow> engine \<times> (error + unit)" where
  "save_storage s =
     (case snapshot (storage s) of
        Inl e \<Rightarrow> (s\<lparr>disk := Garbage\<rparr>, Inl e)
      | Inr j \<Rightarrow> (s\<lparr>disk := Content j\<rparr>, Inr ()))"

text \<open>\<^verbatim>\<open>self._save_storage()\<close> followed by \<^verbatim>\<open>return r\<close>.\<close>

definition save_return :: "engine \<Rightarrow> 'a \<Rightarrow> engine \<times> (error + 'a)" where
  "save_return s r =
     (case save_storage s of
        (s', Inl e) \<Rightarrow> (s', Inl e)
      | (s', Inr _) \<Rightarrow> (s', Inr r))"

subsection \<open>Scalar and generic key operations\<close>

definition set_op :: "engine \<Rightarrow> string \<Rightarrow> pyval \<Rightarrow> engine \<times> (error + unit)" where
  "set_op s key val = save_return (s\<lparr>storage := AList.update key val (storage s)\<rparr>) ()"

text \<open>The clock \<^verbatim>\<open>time.time()\<close> is the argument \<open>now\<close> of the methods that read it.\<close>

definition wrapper :: "pyval \<Rightarrow> real \<Rightarrow> pyval" where
  "wrapper val t = PDict [(''value'', val), (''expires_at'', PFloat t)]"

definition setex :: "real \<Rightarrow> engine \<Rightarrow> string \<Rightarrow> real \<Rightarrow> pyval \<Rightarrow> engine \<times> (error + unit)" where
  "setex now s key ttl val =
     save_return (s\<lparr>storage := AList.update key (wrapper val (now + ttl)) (storage s)\<rparr>) ()"

text \<open>\<^verbatim>\<open>isinstance(item, dict) and 'expires_at' in item\<close>\<close>

definition has_expiry :: "pyval \<Rightarrow> bool" where
  "has_expiry item = (case item of PDict d \<Rightarrow> ''expires_at'' \<in> set (map fst d) | _ \<Rightarrow> False)"

definition get :: "real \<Rightarrow> engine \<Rightarrow> string \<Rightarrow> engine \<times> (error + pyval)" where
  "get now s key =
     (case map_of (storage s) key of
        None \<Rightarrow> (s, Inr PNone)
      | Some item \<Rightarrow>
          (case item of
             PDict d \<Rightarrow>
               (case map_of d ''expires_at'' of
                  None \<Rightarrow> (s, Inr item)
                | Some e \<Rightarrow>
                    (case num_of e of
                       None \<Rightarrow> (s, Inl TypeError)
                     | Some t \<Rightarrow>
                         if now > t
                         then save_return (s\<lparr>storage := AList.delete key (storage s)\<rparr>) PNone
                         else (case map_of d ''value'' of
                                 None \<Rightarrow> (s, Inl KeyError)
                               | Some v \<Rightarrow> (s, Inr v))))
           | _ \<Rightarrow> (s, Inr item)))"

definition delete :: "engine \<Rightarrow> string \<Rightarrow> engine \<times> (error + unit)" where
  "delete s key =
     (if map_of (storage s) key \<noteq> None
      then save_return (s\<lparr>storage := AList.delete key (storage s)\<rparr>) ()
      else (s, Inr ()))"

definition expire :: "real \<Rightarrow> engine \<Rightarrow> string \<Rightarrow> real \<Rightarrow> engine \<times> (error + unit)" where
  "expire now s key ttl =
     (case map_of (storage s) key of
        None \<Rightarrow> (s, Inr ())
      | Some item \<Rightarrow>
          (case item of
             PDict d \<Rightarrow>
               if has_expiry item
               then save_return
                      (s\<lparr>storage := AList.update key
                          (PDict (AList.update ''expires_at'' (PFloat (now + ttl)) d)) (storage s)\<rparr>) ()
               else save_return
                      (s\<lparr>storage := AList.update key (wrapper item (now + ttl)) (storage s)\<rparr>) ()
           | _ \<Rightarrow>
               save_return
                 (s\<lparr>storage := AList.update key (wrapper item (now + ttl)) (storage s)\<rparr>) ()))"

text \<open>
  \<^verbatim>\<open>fnmatch.fnmatch\<close> belongs to the Python library, not to this program: \<^verbatim>\<open>keys\<close>
  takes it as the argument \<open>fnmatch\<close>.
\<close>

definition keys :: "(string \<Rightarrow> string \<Rightarrow> bool) \<Rightarrow> engine \<Rightarrow> string \<Rightarrow> engine \<times> (error + string list)" where
  "keys fnmatch s pattern = (s, Inr (filter (\<lambda>key. fnmatch key pattern) (map fst (storage s))))"

definition incrby :: "engine \<Rightarrow> string \<Rightarrow> int \<Rightarrow> engine \<times> (error + pyval)" where
  "incrby s key increment =
     (let s1 = (if map_of (storage s) key = None
                then s\<lparr>storage := AList.update key (PInt 0) (storage s)\<rparr> else s)
      in case map_of (storage s1) key of
           None \<Rightarrow> (s1, Inl KeyError)
         | Some v \<Rightarrow>
             if \<not> is_int v then (s1, Inl TypeError)
             else (case py_add_int v increment of
                     Inl e \<Rightarrow> (s1, Inl e)
                   | Inr v' \<Rightarrow>
                       save_return (s1\<lparr>storage := AList.update key v' (storage s1)\<rparr>) v'))"

definition decrby :: "engine \<Rightarrow> string \<Rightarrow> int \<Rightarrow> engine \<times> (error + pyval)" where
  "decrby s key decrement = incrby s key (- decrement)"

definition exists :: "engine \<Rightarrow> string \<Rightarrow> engine \<times> (error + bool)" where
  "exists s key = (s, Inr (map_of (storage s) key \<noteq> None))"

text \<open>\<^verbatim>\<open>self.storage[new_key] = self.storage.pop(old_key)\<close>: the pop comes first.\<close>

definition rename :: "engine \<Rightarrow> string \<Rightarrow> string \<Rightarrow> engine \<times> (error + unit)" where
  "rename s old_key new_key =
     (case map_of (storage s) old_key of
        Some v \<Rightarrow>
          save_return
            (s\<lparr>storage := AList.update new_key v (AList.delete old_key (storage s))\<rparr>) ()
      | None \<Rightarrow> (s, Inl KeyError))"

definition type_name :: "pyval \<Rightarrow> string" where
  "type_name v =
     (if is_str v then ''string''
      else if is_list v then ''list''
      else if is_set v then ''set''
      else if is_dict v then ''hash''
      else if is_int v then ''integer''
      else ''unknown'')"

definition type :: "engine \<Rightarrow> string \<Rightarrow> engine \<times> (error + string)" where
  "type s key =
     (case map_of (storage s) key of
        Some v \<Rightarrow> (s, Inr (type_name v))
      | None \<Rightarrow> (s, Inr ''none''))"

definition append_op :: "engine \<Rightarrow> string \<Rightarrow> pyval \<Rightarrow> engine \<times> (error + unit)" where
  "append_op s key val =
     (case map_of (storage s) key of
        Some v \<Rightarrow>
          (case v of
             PStr a \<Rightarrow>
               (case val of
                  PStr b \<Rightarrow>
                    save_return (s\<lparr>storage := AList.update key (PStr (a @ b)) (storage s)\<rparr>) ()
                | _ \<Rightarrow> (s, Inl TypeError))
           | _ \<Rightarrow> (s, Inl TypeError))
      | None \<Rightarrow> save_return (s\<lparr>storage := AList.update key val (storage s)\<rparr>) ())"

subsection \<open>Set operations\<close>

definition sadd :: "engine \<Rightarrow> string \<Rightarrow> pyval \<Rightarrow> engine \<times> (error + unit)" where
  "sadd s key val =
     (case (case map_of (storage s) key of
              None \<Rightarrow> Inr (s\<lparr>storage := AList.update key (PSet []) (storage s)\<rparr>)
            | Some v \<Rightarrow> if \<not> is_set v then Inl TypeError else Inr s) of
        Inl e \<Rightarrow> (s, Inl e)
      | Inr s1 \<Rightarrow>
          (case map_of (storage s1) key of
             Some (PSet xs) \<Rightarrow>
               if hashable val
               then save_return
                      (s1\<lparr>storage := AList.update key (PSet (set_add val xs)) (storage s1)\<rparr>) ()
               else (s1, Inl TypeError)
           | _ \<Rightarrow> (s1, Inl AttributeError)))"

definition srem :: "engine \<Rightarrow> string \<Rightarrow> pyval \<Rightarrow> engine \<times> (error + unit)" where
  "srem s key val =
     (case map_of (storage s) key of
        None \<Rightarrow> (s, Inr ())
      | Some c \<Rightarrow>
          (case py_in val c of
             Inl e \<Rightarrow> (s, Inl e)
           | Inr False \<Rightarrow> (s, Inr ())
           | Inr True \<Rightarrow>
               (case c of
                  PSet xs \<Rightarrow>
                    save_return
                      (s\<lparr>storage := AList.update key (PSet (py_remove val xs)) (storage s)\<rparr>) ()
                | PList xs \<Rightarrow>
                    save_return
                      (s\<lparr>storage := AList.update key (PList (py_remove val xs)) (storage s)\<rparr>) ()
                | _ \<Rightarrow> (s, Inl AttributeError))))"

definition sismember :: "engine \<Rightarrow> string \<Rightarrow> pyval \<Rightarrow> engine \<times> (error + bool)" where
  "sismember s key val =
     (case map_of (storage s) key of
        None \<Rightarrow> (s, Inr False)
      | Some c \<Rightarrow> (case py_in val c of Inl e \<Rightarrow> (s, Inl e) | Inr b \<Rightarrow> (s, Inr b)))"

definition smembers :: "engine \<Rightarrow> string \<Rightarrow> engine \<times> (error + pyval)" where
  "smembers s key =
     (case map_of (storage s) key of
        Some c \<Rightarrow> (s, Inr c)
      | None \<Rightarrow> (s, Inr (PSet [])))"

definition scard :: "engine \<Rightarrow> string \<Rightarrow> engine \<times> (error + nat)" where
  "scard s key =
     (case map_of (storage s) key of
        Some (PSet xs) \<Rightarrow> (s, Inr (length xs))
      | _ \<Rightarrow> (s, Inr 0))"

subsection \<open>Hash operations\<close>

text \<open>
  None of them checks the type of the stored value: on a value that is no dict the
  subscript or the \<^verbatim>\<open>in\<close> test of Python raises, or finds nothing.
\<close>

definition hset :: "engine \<Rightarrow> string \<Rightarrow> string \<Rightarrow> pyval \<Rightarrow> engine \<times> (error + unit)" where
  "hset s key field val =
     (let s1 = (if map_of (storage s) key = None
                then s\<lparr>storage := AList.update key (PDict []) (storage s)\<rparr> else s)
      in case map_of (storage s1) key of
           None \<Rightarrow> (s1, Inl KeyError)
         | Some c \<Rightarrow>
             (case c of
                PDict d \<Rightarrow>
                  save_return
                    (s1\<lparr>storage := AList.update key (PDict (AList.update field val d)) (storage s1)\<rparr>) ()
              | _ \<Rightarrow> (s1, Inl TypeError)))"

definition hget :: "engine \<Rightarrow> string \<Rightarrow> string \<Rightarrow> engine \<times> (error + pyval)" where
  "hget s key field =
     (case map_of (storage s) key of
        None \<Rightarrow> (s, Inr PNone)
      | Some c \<Rightarrow>
          (case py_in (PStr field) c of
             Inl e \<Rightarrow> (s, Inl e)
           | Inr False \<Rightarrow> (s, Inr PNone)
           | Inr True \<Rightarrow>
               (case c of
                  PDict d \<Rightarrow>
                    (case map_of d field of
                       Some v \<Rightarrow> (s, Inr v)
                     | None \<Rightarrow> (s, Inl KeyError))
                | _ \<Rightarrow> (s, Inl TypeError))))"

definition hdel :: "engine \<Rightarrow> string \<Rightarrow> string \<Rightarrow> engine \<times> (error + unit)" where
  "hdel s key field =
     (case map_of (storage s) key of
        None \<Rightarrow> (s, Inr ())
      | Some c \<Rightarrow>
          (case py_in (PStr field) c of
             Inl e \<Rightarrow> (s, Inl e)
           | Inr False \<Rightarrow> (s, Inr ())
           | Inr True \<Rightarrow>
               (case c of
                  PDict d \<Rightarrow>
                    save_return
                      (s\<lparr>storage := AList.update key (PDict (AList.delete field d)) (storage s)\<rparr>) ()
                | _ \<Rightarrow> (s, Inl TypeError))))"

definition hincrby :: "engine \<Rightarrow> string \<Rightarrow> string \<Rightarrow> int \<Rightarrow> engine \<times> (error + pyval)" where
  "hincrby s key field increment =
     (let s1 = (if map_of (storage s) key = None
                then s\<lparr>storage := AList.update key (PDict []) (storage s)\<rparr> else s)
      in case map_of (storage s1) key of
           None \<Rightarrow> (s1, Inl KeyError)
         | Some c \<Rightarrow>
             (case py_in (PStr field) c of
                Inl e \<Rightarrow> (s1, Inl e)
              | Inr present \<Rightarrow>
                  (case c of
                     PDict d \<Rightarrow>
                       (let d1 = (if present then d else AList.update field (PInt 0) d);
                            s2 = s1\<lparr>storage := AList.update key (PDict d1) (storage s1)\<rparr>
                        in case map_of d1 field of
                             None \<Rightarrow> (s2, Inl KeyError)
                           | Some v \<Rightarrow>
                               (case py_add_int v increment of
                                  Inl e \<Rightarrow> (s2, Inl e)
                                | Inr v' \<Rightarrow>
                                    save_return
                                      (s2\<lparr>storage := AList.update key
                                          (PDict (AList.update field v' d1)) (storage s2)\<rparr>) v'))
                   | _ \<Rightarrow> (s1, Inl TypeError))))"

definition hkeys :: "engine \<Rightarrow> string \<Rightarrow> engine \<times> (error + string list)" where
  "hkeys s key =
     (case map_of (storage s) key of
        Some (PDict d) \<Rightarrow> (s, Inr (map fst d))
      | _ \<Rightarrow> (s, Inr []))"

definition hvals :: "engine \<Rightarrow> string \<Rightarrow> engine \<times> (error + pyval list)" where
  "hvals s key =
     (case map_of (storage s) key of
        Some (PDict d) \<Rightarrow> (s, Inr (map snd d))
      | _ \<Rightarrow> (s, Inr []))"

definition hlen :: "engine \<Rightarrow> string \<Rightarrow> engine \<times> (error + nat)" where
  "hlen s key =
     (case map_of (storage s) key of
        Some (PDict d) \<Rightarrow> (s, Inr (length d))
      | _ \<Rightarrow> (s, Inr 0))"

subsection \<open>List operations\<close>

definition lpush :: "engine \<Rightarrow> string \<Rightarrow> pyval \<Rightarrow> engine \<times> (error + unit)" where
  "lpush s key val =
     (case (case map_of (storage s) key of
              None \<Rightarrow> Inr (s\<lparr>storage := AList.update key (PList []) (storage s)\<rparr>)
            | Some v \<Rightarrow> if \<not> is_list v then Inl TypeError else Inr s) of
        Inl e \<Rightarrow> (s, Inl e)
      | Inr s1 \<Rightarrow>
          (case map_of (storage s1) key of
             Some (PList xs) \<Rightarrow>
               save_return (s1\<lparr>storage := AList.update key (PList (val # xs)) (storage s1)\<rparr>) ()
           | _ \<Rightarrow> (s1, Inl AttributeError)))"

definition rpush :: "engine \<Rightarrow> string \<Rightarrow> pyval \<Rightarrow> engine \<times> (error + unit)" where
  "rpush s key val =
     (case (case map_of (storage s) key of
              None \<Rightarrow> Inr (s\<lparr>storage := AList.update key (PList []) (storage s)\<rparr>)
            | Some v \<Rightarrow> if \<not> is_list v then Inl TypeError else Inr s) of
        Inl e \<Rightarrow> (s, Inl e)
      | Inr s1 \<Rightarrow>
          (case map_of (storage s1) key of
             Some (PList xs) \<Rightarrow>
               save_return (s1\<lparr>storage := AList.update key (PList (xs @ [val])) (storage s1)\<rparr>) ()
           | _ \<Rightarrow> (s1, Inl AttributeError)))"

definition lpop :: "engine \<Rightarrow> string \<Rightarrow> engine \<times> (error + pyval)" where
  "lpop s key =
     (case map_of (storage s) key of
        Some (PList (x # xs)) \<Rightarrow>
          save_return (s\<lparr>storage := AList.update key (PList xs) (storage s)\<rparr>) x
      | _ \<Rightarrow> (s, Inr PNone))"

definition rpop :: "engine \<Rightarrow> string \<Rightarrow> engine \<times> (error + pyval)" where
  "rpop s key =
     (case map_of (storage s) key of
        Some (PList (x # xs)) \<Rightarrow>
          save_return (s\<lparr>storage := AList.update key (PList (butlast (x # xs))) (storage s)\<rparr>)
            (last (x # xs))
      | _ \<Rightarrow> (s, Inr PNone))"

definition llen :: "engine \<Rightarrow> string \<Rightarrow> engine \<times> (error + nat)" where
  "llen s key =
     (case map_of (storage s) key of
        Some (PList xs) \<Rightarrow> (s, Inr (length xs))
      | _ \<Rightarrow> (s, Inr 0))"

definition lindex :: "engine \<Rightarrow> string \<Rightarrow> int \<Rightarrow> engine \<times> (error + pyval)" where
  "lindex s key index =
     (case map_of (storage s) key of
        Some (PList xs) \<Rightarrow>
          (case py_index xs index of Some x \<Rightarrow> (s, Inr x) | None \<Rightarrow> (s, Inr PNone))
      | _ \<Rightarrow> (s, Inr PNone))"

text \<open>\<^verbatim>\<open>self.storage[key][start:end + 1]\<close>\<close>

definition lrange :: "engine \<Rightarrow> string \<Rightarrow> int \<Rightarrow> int \<Rightarrow> engine \<times> (error + pyval list)" where
  "lrange s key start endi =
     (case map_of (storage s) key of
        Some (PList xs) \<Rightarrow> (s, Inr (py_slice xs start (endi + 1)))
      | _ \<Rightarrow> (s, Inr []))"

subsection \<open>Score-ordered list operations\<close>

text \<open>
  \<^verbatim>\<open>zadd\<close> appends the tuple \<^verbatim>\<open>(score, value)\<close> to whatever list the key holds and sorts
  the list. A value without \<^verbatim>\<open>append\<close> raises \<^verbatim>\<open>AttributeError\<close>. When the sort raises,
  Python leaves the list a permutation it does not specify; the model keeps the order
  after the append.
\<close>

definition zadd :: "engine \<Rightarrow> string \<Rightarrow> pyval \<Rightarrow> pyval \<Rightarrow> engine \<times> (error + unit)" where
  "zadd s key score val =
     (let s1 = (if map_of (storage s) key = None
                then s\<lparr>storage := AList.update key (PList []) (storage s)\<rparr> else s)
      in case map_of (storage s1) key of
           Some (PList xs) \<Rightarrow>
             (let xs1 = xs @ [PTuple [score, val]]
              in case py_sort xs1 of
                   Inl e \<Rightarrow> (s1\<lparr>storage := AList.update key (PList xs1) (storage s1)\<rparr>, Inl e)
                 | Inr ys \<Rightarrow>
                     save_return (s1\<lparr>storage := AList.update key (PList ys) (storage s1)\<rparr>) ())
         | _ \<Rightarrow> (s1, Inl AttributeError))"

text \<open>\<^verbatim>\<open>[v for s, v in xs]\<close>\<close>

fun seconds :: "pyval list \<Rightarrow> error + pyval list" where
  "seconds [] = Inr []"
| "seconds (x # xs) =
     (case unpack2 x of
        Inl e \<Rightarrow> Inl e
      | Inr p \<Rightarrow> (case seconds xs of Inl e \<Rightarrow> Inl e | Inr vs \<Rightarrow> Inr (snd p # vs)))"

definition zrange :: "engine \<Rightarrow> string \<Rightarrow> int \<Rightarrow> int \<Rightarrow> engine \<times> (error + pyval list)" where
  "zrange s key start endi =
     (case map_of (storage s) key of
        Some (PList xs) \<Rightarrow>
          (case seconds (py_slice xs start (endi + 1)) of
             Inl e \<Rightarrow> (s, Inl e)
           | Inr vs \<Rightarrow> (s, Inr vs))
      | _ \<Rightarrow> (s, Inr []))"

text \<open>The loop of \<^verbatim>\<open>zscore\<close>: the score of the first pair whose member equals the value.\<close>

fun zscore_scan :: "pyval list \<Rightarrow> pyval \<Rightarrow> error + pyval" where
  "zscore_scan [] val = Inr PNone"
| "zscore_scan (x # xs) val =
     (case unpack2 x of
        Inl e \<Rightarrow> Inl e
      | Inr p \<Rightarrow> if py_eq (snd p) val then Inr (fst p) else zscore_scan xs val)"

definition zscore :: "engine \<Rightarrow> string \<Rightarrow> pyval \<Rightarrow> engine \<times> (error + pyval)" where
  "zscore s key val =
     (case map_of (storage s) key of
        Some (PList xs) \<Rightarrow>
          (case zscore_scan xs val of Inl e \<Rightarrow> (s, Inl e) | Inr r \<Rightarrow> (s, Inr r))
      | _ \<Rightarrow> (s, Inr PNone))"

section \<open>What a snapshot can carry\<close>








section \<open>Properties\<close>

subsection \<open>Auxiliary facts\<close>

lemma dump_errors:
  "dump_val v = Inl e \<Longrightarrow> e = TypeError"
  "dump_list vs = Inl e \<Longrightarrow> e = TypeError"
  "dump_items d = Inl e \<Longrightarrow> e = TypeError"
  by (induction v and vs and d arbitrary: e and e and e rule: dump_val_dump_list_dump_items.induct)
     (auto split: sum.splits)

lemma snapshot_error: "snapshot st = Inl e \<Longrightarrow> e = TypeError"
  by (auto simp: snapshot_def split: sum.splits dest: dump_errors(3))

lemma save_return_storage: "storage (fst (save_return s r)) = storage s"
  by (simp add: save_return_def save_storage_def split: sum.splits)

lemma save_return_ok:
  "snapshot (storage s) = Inr j \<Longrightarrow> save_return s r = (s\<lparr>disk := Content j\<rparr>, Inr r)"
  by (simp add: save_return_def save_storage_def)

lemma save_return_result:
  "snd (save_return s r) = Inr r \<or> snd (save_return s r) = Inl TypeError"
  by (auto simp: save_return_def save_storage_def split: sum.splits dest: snapshot_error)

lemma map_of_delete_same: "map_of (AList.delete k al) k = None"
  by (simp add: AList.delete_conv')

lemma map_of_update_same: "map_of (AList.update k v al) k = Some v"
  by (simp add: AList.update_conv')

lemma get_wrapper_expired:
  assumes "map_of (storage s) key = Some (wrapper v t)" and "t < now"
  shows "get now s key = save_return (s\<lparr>storage := AList.delete key (storage s)\<rparr>) PNone"
  using assms by (simp add: get_def wrapper_def)

lemma get_wrapper_live:
  assumes "map_of (storage s) key = Some (wrapper v t)" and "\<not> t < now"
  shows "get now s key = (s, Inr v)"
  using assms by (simp add: get_def wrapper_def)

subsection \<open>Lazy expiry\<close>



text \<open>
  C8, as the claim states it, fails: \<^verbatim>\<open>get\<close> tests \<^verbatim>\<open>time.time() > expires_at\<close>, so a read
  at the very instant of the timestamp still returns the value. Here the key is set at
  time 90 with a time-to-live of 10 and read at time 100.
\<close>

theorem get_at_expiry_instant_counterexample:
  "get 100 (fst (setex 90 \<lparr>storage = [], disk = NoFile\<rparr> ''k'' 10 (PStr ''v''))) ''k''
     = (\<lparr>storage = [(''k'', wrapper (PStr ''v'') 100)],
         disk = Content (JObj [(''k'', JObj [(''value'', JStr ''v''), (''expires_at'', JFloat 100)])])\<rparr>,
        Inr (PStr ''v''))"
  by (simp add: get_def setex_def wrapper_def save_return_def save_storage_def snapshot_def
      save_entry_def)

text \<open>
  C8, amended. A wrapped value with the timestamp \<open>t\<close> is returned by \<^verbatim>\<open>get\<close> at every
  time up to and including \<open>t\<close>. At a time strictly after \<open>t\<close>, \<^verbatim>\<open>get\<close> removes the key
  and returns \<^verbatim>\<open>None\<close>, unless writing the snapshot raises \<^verbatim>\<open>TypeError\<close>.
\<close>

theorem expiry_boundary:
  assumes "map_of (storage s) key = Some (wrapper v t)"
  shows "(now \<le> t \<longrightarrow> get now s key = (s, Inr v)) \<and>
         (t < now \<longrightarrow>
            map_of (storage (fst (get now s key))) key = None \<and>
            (snd (get now s key) = Inr PNone \<or> snd (get now s key) = Inl TypeError) \<and>
            (\<forall>j. snapshot (AList.delete key (storage s)) = Inr j \<longrightarrow>
                 snd (get now s key) = Inr PNone))"
proof (intro conjI impI allI)
  assume "now \<le> t"
  then have "\<not> t < now" by simp
  then show "get now s key = (s, Inr v)" by (rule get_wrapper_live [OF assms])
next
  assume past: "t < now"
  note g = get_wrapper_expired [OF assms past]
  show "map_of (storage (fst (get now s key))) key = None"
    by (simp add: g save_return_storage map_of_delete_same)
  show "snd (get now s key) = Inr PNone \<or> snd (get now s key) = Inl TypeError"
    unfolding g by (rule save_return_result)
  fix j assume "snapshot (AList.delete key (storage s)) = Inr j"
  then show "snd (get now s key) = Inr PNone"
    by (simp add: g save_return_ok)
qed

text \<open>The amended statement at the timestamp 100, read at 100 and at 101.\<close>

theorem expiry_boundary_witness:
  "map_of (storage \<lparr>storage = [(''k'', wrapper (PStr ''v'') 100)], disk = NoFile\<rparr>) ''k''
     = Some (wrapper (PStr ''v'') 100) \<and>
   get 100 \<lparr>storage = [(''k'', wrapper (PStr ''v'') 100)], disk = NoFile\<rparr> ''k''
     = (\<lparr>storage = [(''k'', wrapper (PStr ''v'') 100)], disk = NoFile\<rparr>, Inr (PStr ''v'')) \<and>
   snapshot (AList.delete ''k'' [(''k'', wrapper (PStr ''v'') 100)]) = Inr (JObj []) \<and>
   map_of (storage (fst (get 101 \<lparr>storage = [(''k'', wrapper (PStr ''v'') 100)], disk = NoFile\<rparr> ''k''))) ''k''
     = None \<and>
   snd (get 101 \<lparr>storage = [(''k'', wrapper (PStr ''v'') 100)], disk = NoFile\<rparr> ''k'') = Inr PNone"
proof -
  let ?s = "\<lparr>storage = [(''k'', wrapper (PStr ''v'') 100)], disk = NoFile\<rparr>"
  have h: "map_of (storage ?s) ''k'' = Some (wrapper (PStr ''v'') 100)" by simp
  have j: "snapshot (AList.delete ''k'' (storage ?s)) = Inr (JObj [])"
    by (simp add: snapshot_def)
  show ?thesis
    using h j expiry_boundary [OF h, of 100] expiry_boundary [OF h, of 101] by simp
qed

subsection \<open>Raw presence\<close>

text \<open>
  C7. \<^verbatim>\<open>exists\<close> answers true for every key present in the dict, whatever the clock. For
  a key whose expiry timestamp has passed it still answers true, and answers false
  once a \<^verbatim>\<open>get\<close> of that key has removed it.
\<close>

theorem exists_ignores_ttl:
  "(map_of (storage s) key \<noteq> None \<longrightarrow> exists s key = (s, Inr True)) \<and>
   (map_of (storage s) key = Some (PDict d) \<and> map_of d ''expires_at'' = Some e \<and>
    num_of e = Some t \<and> t < now \<longrightarrow>
      snd (exists s key) = Inr True \<and>
      snd (exists (fst (get now s key)) key) = Inr False)"
  by (auto simp: exists_def get_def save_return_storage map_of_delete_same)

text \<open>The theorem at a key with the timestamp 1, read at time 2.\<close>

theorem exists_ignores_ttl_witness:
  "map_of (storage \<lparr>storage = [(''k'', wrapper (PStr ''v'') 1)], disk = NoFile\<rparr>) ''k''
     = Some (PDict [(''value'', PStr ''v''), (''expires_at'', PFloat 1)]) \<and>
   map_of [(''value'', PStr ''v''), (''expires_at'', PFloat 1)] ''expires_at'' = Some (PFloat 1) \<and>
   num_of (PFloat 1) = Some 1 \<and> (1::real) < 2 \<and>
   exists \<lparr>storage = [(''k'', wrapper (PStr ''v'') 1)], disk = NoFile\<rparr> ''k''
     = (\<lparr>storage = [(''k'', wrapper (PStr ''v'') 1)], disk = NoFile\<rparr>, Inr True) \<and>
   snd (exists (fst (get 2 \<lparr>storage = [(''k'', wrapper (PStr ''v'') 1)], disk = NoFile\<rparr> ''k'')) ''k'')
     = Inr False"
  using exists_ignores_ttl [of "\<lparr>storage = [(''k'', wrapper (PStr ''v'') 1)], disk = NoFile\<rparr>" "''k''"
      "[(''value'', PStr ''v''), (''expires_at'', PFloat 1)]" "PFloat 1" 1 2]
  by (simp add: wrapper_def)

subsection \<open>Slicing\<close>

lemma take_drop_nth:
  "m + n \<le> length xs \<Longrightarrow> take n (drop m xs) = map (\<lambda>i. xs ! i) [m ..< m + n]"
  by (rule nth_equalityI) simp_all

lemma py_slice_inclusive:
  assumes "0 \<le> start" and "start \<le> endi" and "endi < int (length xs)"
  shows "py_slice xs start (endi + 1) = map (\<lambda>i. xs ! i) [nat start ..< nat endi + 1]"
proof -
  have a: "py_slice xs start (endi + 1) = take (nat (endi + 1 - start)) (drop (nat start) xs)"
    using assms by (simp add: py_slice_def slice_bound_def Let_def min_def)
  have b: "nat start + nat (endi + 1 - start) = nat endi + 1"
    using assms by linarith
  have c: "nat start + nat (endi + 1 - start) \<le> length xs"
    using assms by linarith
  show ?thesis
    unfolding a using take_drop_nth [OF c] by (simp only: b)
qed

text \<open>
  C2. \<^verbatim>\<open>lrange\<close> slices \<^verbatim>\<open>[start:end + 1]\<close>, which is the inclusive range for an \<^verbatim>\<open>end\<close> inside
  the list (\<open>py_slice_inclusive\<close>). For \<^verbatim>\<open>end = -1\<close> the upper bound is \<^verbatim>\<open>0\<close> and the slice is
  empty: after \<^verbatim>\<open>lpush(k, "a")\<close> and \<^verbatim>\<open>rpush(k, "b")\<close> on a fresh key, \<^verbatim>\<open>lrange(k, 0, -1)\<close>
  returns the empty list, not \<^verbatim>\<open>["a", "b"]\<close>.
\<close>

theorem lrange_end_minus_one:
  "lrange (fst (rpush (fst (lpush \<lparr>storage = [], disk = NoFile\<rparr> ''k'' (PStr ''a''))) ''k'' (PStr ''b''))) ''k'' 0 (- 1)
     = (\<lparr>storage = [(''k'', PList [PStr ''a'', PStr ''b''])],
         disk = Content (JObj [(''k'', JArr [JStr ''a'', JStr ''b''])])\<rparr>, Inr [])"
  by (simp add: lrange_def rpush_def lpush_def save_return_def save_storage_def snapshot_def
      save_entry_def py_slice_def slice_bound_def)

text \<open>\<^verbatim>\<open>zrange\<close> slices the same way and is empty for \<^verbatim>\<open>end = -1\<close> as well.\<close>

lemma zrange_end_minus_one:
  "snd (zrange (fst (zadd (fst (zadd \<lparr>storage = [], disk = NoFile\<rparr> ''k'' (PInt 3) (PStr ''x''))) ''k'' (PInt 1) (PStr ''y''))) ''k'' 0 (- 1))
     = Inr []"
  by (simp add: zrange_def zadd_def save_return_def save_storage_def snapshot_def
      save_entry_def py_slice_def slice_bound_def py_sort_def num_lt_def)

subsection \<open>Type names\<close>





subsection \<open>Read-only operations\<close>

text \<open>
  C10. The operations \<^verbatim>\<open>exists\<close>, \<^verbatim>\<open>type\<close>, \<^verbatim>\<open>keys\<close>, \<^verbatim>\<open>llen\<close>, \<^verbatim>\<open>scard\<close>, \<^verbatim>\<open>hlen\<close>,
  \<^verbatim>\<open>sismember\<close>, \<^verbatim>\<open>smembers\<close>, \<^verbatim>\<open>hget\<close>, \<^verbatim>\<open>hkeys\<close>, \<^verbatim>\<open>hvals\<close>, \<^verbatim>\<open>lindex\<close>, \<^verbatim>\<open>lrange\<close>,
  \<^verbatim>\<open>zrange\<close> and \<^verbatim>\<open>zscore\<close> leave the engine, that is the in-memory store and the
  snapshot file, as it was: for every store, key, pattern and argument, also when they
  raise.
\<close>

theorem read_only_frame:
  "fst (exists s key) = s \<and> fst (type s key) = s \<and> fst (keys fnmatch s pattern) = s \<and>
   fst (llen s key) = s \<and> fst (scard s key) = s \<and> fst (hlen s key) = s \<and>
   fst (sismember s key val) = s \<and> fst (smembers s key) = s \<and> fst (hget s key field) = s \<and>
   fst (hkeys s key) = s \<and> fst (hvals s key) = s \<and> fst (lindex s key index) = s \<and>
   fst (lrange s key start endi) = s \<and> fst (zrange s key start endi) = s \<and>
   fst (zscore s key val) = s"
proof (intro conjI)
  show "fst (exists s key) = s" by (simp add: exists_def)
  show "fst (type s key) = s" by (simp add: type_def split: option.splits)
  show "fst (keys fnmatch s pattern) = s" by (simp add: keys_def)
  show "fst (llen s key) = s" by (simp add: llen_def split: option.splits pyval.splits)
  show "fst (scard s key) = s" by (simp add: scard_def split: option.splits pyval.splits)
  show "fst (hlen s key) = s" by (simp add: hlen_def split: option.splits pyval.splits)
  show "fst (sismember s key val) = s"
    by (simp add: sismember_def split: option.splits sum.splits)
  show "fst (smembers s key) = s" by (simp add: smembers_def split: option.splits)
  show "fst (hget s key field) = s"
    by (simp add: hget_def split: option.splits sum.splits bool.splits pyval.splits)
  show "fst (hkeys s key) = s" by (simp add: hkeys_def split: option.splits pyval.splits)
  show "fst (hvals s key) = s" by (simp add: hvals_def split: option.splits pyval.splits)
  show "fst (lindex s key index) = s"
    by (simp add: lindex_def split: option.splits pyval.splits)
  show "fst (lrange s key start endi) = s"
    by (simp add: lrange_def split: option.splits pyval.splits)
  show "fst (zrange s key start endi) = s"
    by (simp add: zrange_def split: option.splits pyval.splits sum.splits)
  show "fst (zscore s key val) = s"
    by (simp add: zscore_def split: option.splits pyval.splits sum.splits)
qed

text \<open>
  The theorem at a store with one integer key; \<^verbatim>\<open>sismember\<close> raises there and still
  changes nothing.
\<close>

theorem read_only_frame_witness:
  "fst (exists \<lparr>storage = [(''k'', PInt 5)], disk = NoFile\<rparr> ''k'')
     = \<lparr>storage = [(''k'', PInt 5)], disk = NoFile\<rparr> \<and>
   fst (sismember \<lparr>storage = [(''k'', PInt 5)], disk = NoFile\<rparr> ''k'' (PInt 1))
     = \<lparr>storage = [(''k'', PInt 5)], disk = NoFile\<rparr> \<and>
   snd (sismember \<lparr>storage = [(''k'', PInt 5)], disk = NoFile\<rparr> ''k'' (PInt 1)) = Inl TypeError \<and>
   fst (keys (\<lambda>key pattern. pattern = ''*'' \<or> key = pattern) \<lparr>storage = [(''k'', PInt 5)], disk = NoFile\<rparr> ''*'')
     = \<lparr>storage = [(''k'', PInt 5)], disk = NoFile\<rparr>"
  using read_only_frame [of "\<lparr>storage = [(''k'', PInt 5)], disk = NoFile\<rparr>" "''k''"
      "\<lambda>key pattern. pattern = ''*'' \<or> key = pattern" "''*''" "PInt 1" "''f''" 0 0 0]
  by (simp add: sismember_def)

subsection \<open>Type checks\<close>

lemma incrby_mismatch:
  "map_of (storage s) key = Some v \<Longrightarrow> \<not> is_int v \<Longrightarrow> incrby s key n = (s, Inl TypeError)"
  by (simp add: incrby_def)

lemma decrby_mismatch:
  "map_of (storage s) key = Some v \<Longrightarrow> \<not> is_int v \<Longrightarrow> decrby s key n = (s, Inl TypeError)"
  by (simp add: decrby_def incrby_mismatch)

lemma append_mismatch:
  "map_of (storage s) key = Some v \<Longrightarrow> \<not> is_str v \<Longrightarrow> append_op s key val = (s, Inl TypeError)"
  by (cases v) (simp_all add: append_op_def)

lemma sadd_mismatch:
  "map_of (storage s) key = Some v \<Longrightarrow> \<not> is_set v \<Longrightarrow> sadd s key val = (s, Inl TypeError)"
  by (simp add: sadd_def)

lemma lpush_mismatch:
  "map_of (storage s) key = Some v \<Longrightarrow> \<not> is_list v \<Longrightarrow> lpush s key val = (s, Inl TypeError)"
  by (simp add: lpush_def)

lemma rpush_mismatch:
  "map_of (storage s) key = Some v \<Longrightarrow> \<not> is_list v \<Longrightarrow> rpush s key val = (s, Inl TypeError)"
  by (simp add: rpush_def)

lemma rename_absent:
  "map_of (storage s) old_key = None \<Longrightarrow> rename s old_key new_key = (s, Inl KeyError)"
  by (simp add: rename_def)

lemma hset_mismatch:
  "map_of (storage s) key = Some v \<Longrightarrow> \<not> is_dict v \<Longrightarrow> hset s key field val = (s, Inl TypeError)"
  by (cases v) (simp_all add: hset_def)

lemma hincrby_mismatch:
  "map_of (storage s) key = Some v \<Longrightarrow> \<not> is_dict v \<Longrightarrow>
     hincrby s key field n = (s, Inl TypeError)"
  by (cases v) (simp_all add: hincrby_def split: sum.splits)

text \<open>
  C5. \<^verbatim>\<open>incrby\<close> and \<^verbatim>\<open>decrby\<close> on a value that is no integer, \<^verbatim>\<open>append\<close> on a value that is
  no string, \<^verbatim>\<open>sadd\<close> on a value that is no set, \<^verbatim>\<open>lpush\<close> and \<^verbatim>\<open>rpush\<close> on a value that is
  no list raise \<^verbatim>\<open>TypeError\<close>, and \<^verbatim>\<open>rename\<close> of an absent key raises \<^verbatim>\<open>KeyError\<close>; each
  leaves the in-memory store and the snapshot file exactly as they were.
\<close>

theorem failure_atomicity:
  "(\<forall>v. map_of (storage s) key = Some v \<and> \<not> is_int v \<longrightarrow>
        incrby s key n = (s, Inl TypeError) \<and> decrby s key n = (s, Inl TypeError)) \<and>
   (\<forall>v. map_of (storage s) key = Some v \<and> \<not> is_str v \<longrightarrow>
        append_op s key val = (s, Inl TypeError)) \<and>
   (\<forall>v. map_of (storage s) key = Some v \<and> \<not> is_set v \<longrightarrow>
        sadd s key val = (s, Inl TypeError)) \<and>
   (\<forall>v. map_of (storage s) key = Some v \<and> \<not> is_list v \<longrightarrow>
        lpush s key val = (s, Inl TypeError) \<and> rpush s key val = (s, Inl TypeError)) \<and>
   (map_of (storage s) old_key = None \<longrightarrow> rename s old_key new_key = (s, Inl KeyError))"
  by (simp add: incrby_mismatch decrby_mismatch append_mismatch sadd_mismatch lpush_mismatch
      rpush_mismatch rename_absent)

text \<open>The theorem at a store with one string key and at a store with one integer key.\<close>

theorem failure_atomicity_witness:
  "map_of (storage \<lparr>storage = [(''k'', PStr ''v'')], disk = Content (JObj [(''k'', JStr ''v'')])\<rparr>) ''k''
     = Some (PStr ''v'') \<and>
   map_of (storage \<lparr>storage = [(''k'', PStr ''v'')], disk = Content (JObj [(''k'', JStr ''v'')])\<rparr>) ''a''
     = None \<and>
   incrby \<lparr>storage = [(''k'', PStr ''v'')], disk = Content (JObj [(''k'', JStr ''v'')])\<rparr> ''k'' 5
     = (\<lparr>storage = [(''k'', PStr ''v'')], disk = Content (JObj [(''k'', JStr ''v'')])\<rparr>, Inl TypeError) \<and>
   sadd \<lparr>storage = [(''k'', PStr ''v'')], disk = Content (JObj [(''k'', JStr ''v'')])\<rparr> ''k'' (PInt 1)
     = (\<lparr>storage = [(''k'', PStr ''v'')], disk = Content (JObj [(''k'', JStr ''v'')])\<rparr>, Inl TypeError) \<and>
   lpush \<lparr>storage = [(''k'', PStr ''v'')], disk = Content (JObj [(''k'', JStr ''v'')])\<rparr> ''k'' (PInt 1)
     = (\<lparr>storage = [(''k'', PStr ''v'')], disk = Content (JObj [(''k'', JStr ''v'')])\<rparr>, Inl TypeError) \<and>
   rename \<lparr>storage = [(''k'', PStr ''v'')], disk = Content (JObj [(''k'', JStr ''v'')])\<rparr> ''a'' ''b''
     = (\<lparr>storage = [(''k'', PStr ''v'')], disk = Content (JObj [(''k'', JStr ''v'')])\<rparr>, Inl KeyError) \<and>
   append_op \<lparr>storage = [(''n'', PInt 3)], disk = NoFile\<rparr> ''n'' (PStr ''x'')
     = (\<lparr>storage = [(''n'', PInt 3)], disk = NoFile\<rparr>, Inl TypeError)"
proof -
  let ?s = "\<lparr>storage = [(''k'', PStr ''v'')], disk = Content (JObj [(''k'', JStr ''v'')])\<rparr>"
  let ?u = "\<lparr>storage = [(''n'', PInt 3)], disk = NoFile\<rparr>"
  have h: "map_of (storage ?s) ''k'' = Some (PStr ''v'')" "map_of (storage ?s) ''a'' = None"
    "map_of (storage ?u) ''n'' = Some (PInt 3)"
    by simp_all
  show ?thesis
    using h failure_atomicity [of ?s "''k''" 5 "PInt 1" "''a''" "''b''"]
      failure_atomicity [of ?u "''n''" 0 "PStr ''x''" "''a''" "''b''"]
    by simp
qed

text \<open>
  C3, as the claim states it, fails: not every operation meant for another kind of
  value fails. \<^verbatim>\<open>lpop\<close> guards with \<^verbatim>\<open>isinstance(..., list)\<close> and returns \<^verbatim>\<open>None\<close> on a key
  that holds a set.
\<close>

theorem lpop_on_set_counterexample:
  "lpop (fst (sadd \<lparr>storage = [], disk = NoFile\<rparr> ''k'' (PInt 1))) ''k''
     = (\<lparr>storage = [(''k'', PSet [PInt 1])], disk = Content (JObj [(''k'', JArr [JInt 1])])\<rparr>,
        Inr PNone)"
  by (simp add: lpop_def sadd_def set_add_def save_return_def save_storage_def snapshot_def
      save_entry_def)

text \<open>
  C3, amended. On a key that holds a value of another Python type, \<^verbatim>\<open>hset\<close> and
  \<^verbatim>\<open>hincrby\<close> (no dict), \<^verbatim>\<open>sadd\<close> (no set), \<^verbatim>\<open>lpush\<close> and \<^verbatim>\<open>rpush\<close> (no list), \<^verbatim>\<open>incrby\<close> and
  \<^verbatim>\<open>decrby\<close> (no integer) and \<^verbatim>\<open>append\<close> (no string) raise \<^verbatim>\<open>TypeError\<close> and leave the
  store and the file unchanged; \<^verbatim>\<open>lpop\<close>, \<^verbatim>\<open>rpop\<close> and the read-only operations
  \<^verbatim>\<open>llen\<close>, \<^verbatim>\<open>lindex\<close>, \<^verbatim>\<open>lrange\<close>, \<^verbatim>\<open>zrange\<close>, \<^verbatim>\<open>zscore\<close>, \<^verbatim>\<open>scard\<close>, \<^verbatim>\<open>hlen\<close>, \<^verbatim>\<open>hkeys\<close>,
  \<^verbatim>\<open>hvals\<close> do not raise and return their default, changing nothing.
\<close>

theorem type_enforcement:
  assumes "map_of (storage s) key = Some v"
  shows "(\<not> is_dict v \<longrightarrow>
            hset s key field val = (s, Inl TypeError) \<and>
            hincrby s key field n = (s, Inl TypeError) \<and>
            hlen s key = (s, Inr 0) \<and> hkeys s key = (s, Inr []) \<and> hvals s key = (s, Inr [])) \<and>
         (\<not> is_set v \<longrightarrow> sadd s key val = (s, Inl TypeError) \<and> scard s key = (s, Inr 0)) \<and>
         (\<not> is_list v \<longrightarrow>
            lpush s key val = (s, Inl TypeError) \<and> rpush s key val = (s, Inl TypeError) \<and>
            lpop s key = (s, Inr PNone) \<and> rpop s key = (s, Inr PNone) \<and>
            llen s key = (s, Inr 0) \<and> lindex s key index = (s, Inr PNone) \<and>
            lrange s key start endi = (s, Inr []) \<and> zrange s key start endi = (s, Inr []) \<and>
            zscore s key val = (s, Inr PNone)) \<and>
         (\<not> is_int v \<longrightarrow>
            incrby s key n = (s, Inl TypeError) \<and> decrby s key n = (s, Inl TypeError)) \<and>
         (\<not> is_str v \<longrightarrow> append_op s key val = (s, Inl TypeError))"
proof (intro conjI impI)
  assume d: "\<not> is_dict v"
  show "hset s key field val = (s, Inl TypeError)" by (rule hset_mismatch [OF assms d])
  show "hincrby s key field n = (s, Inl TypeError)" by (rule hincrby_mismatch [OF assms d])
  show "hlen s key = (s, Inr 0)" using assms d by (cases v) (simp_all add: hlen_def)
  show "hkeys s key = (s, Inr [])" using assms d by (cases v) (simp_all add: hkeys_def)
  show "hvals s key = (s, Inr [])" using assms d by (cases v) (simp_all add: hvals_def)
next
  assume d: "\<not> is_set v"
  show "sadd s key val = (s, Inl TypeError)" by (rule sadd_mismatch [OF assms d])
  show "scard s key = (s, Inr 0)" using assms d by (cases v) (simp_all add: scard_def)
next
  assume d: "\<not> is_list v"
  show "lpush s key val = (s, Inl TypeError)" by (rule lpush_mismatch [OF assms d])
  show "rpush s key val = (s, Inl TypeError)" by (rule rpush_mismatch [OF assms d])
  show "lpop s key = (s, Inr PNone)" using assms d by (cases v) (simp_all add: lpop_def)
  show "rpop s key = (s, Inr PNone)" using assms d by (cases v) (simp_all add: rpop_def)
  show "llen s key = (s, Inr 0)" using assms d by (cases v) (simp_all add: llen_def)
  show "lindex s key index = (s, Inr PNone)" using assms d by (cases v) (simp_all add: lindex_def)
  show "lrange s key start endi = (s, Inr [])" using assms d by (cases v) (simp_all add: lrange_def)
  show "zrange s key start endi = (s, Inr [])" using assms d by (cases v) (simp_all add: zrange_def)
  show "zscore s key val = (s, Inr PNone)" using assms d by (cases v) (simp_all add: zscore_def)
next
  assume d: "\<not> is_int v"
  show "incrby s key n = (s, Inl TypeError)" by (rule incrby_mismatch [OF assms d])
  show "decrby s key n = (s, Inl TypeError)" by (rule decrby_mismatch [OF assms d])
next
  assume d: "\<not> is_str v"
  show "append_op s key val = (s, Inl TypeError)" by (rule append_mismatch [OF assms d])
qed

text \<open>The amended statement at a key that holds a list and at a key that holds an integer.\<close>

theorem type_enforcement_witness:
  "map_of (storage \<lparr>storage = [(''k'', PList [PStr ''a''])], disk = NoFile\<rparr>) ''k''
     = Some (PList [PStr ''a'']) \<and>
   hset \<lparr>storage = [(''k'', PList [PStr ''a''])], disk = NoFile\<rparr> ''k'' ''a'' (PInt 1)
     = (\<lparr>storage = [(''k'', PList [PStr ''a''])], disk = NoFile\<rparr>, Inl TypeError) \<and>
   hincrby \<lparr>storage = [(''k'', PList [PStr ''a''])], disk = NoFile\<rparr> ''k'' ''a'' 2
     = (\<lparr>storage = [(''k'', PList [PStr ''a''])], disk = NoFile\<rparr>, Inl TypeError) \<and>
   sadd \<lparr>storage = [(''k'', PList [PStr ''a''])], disk = NoFile\<rparr> ''k'' (PInt 1)
     = (\<lparr>storage = [(''k'', PList [PStr ''a''])], disk = NoFile\<rparr>, Inl TypeError) \<and>
   scard \<lparr>storage = [(''k'', PList [PStr ''a''])], disk = NoFile\<rparr> ''k''
     = (\<lparr>storage = [(''k'', PList [PStr ''a''])], disk = NoFile\<rparr>, Inr 0) \<and>
   incrby \<lparr>storage = [(''k'', PList [PStr ''a''])], disk = NoFile\<rparr> ''k'' 2
     = (\<lparr>storage = [(''k'', PList [PStr ''a''])], disk = NoFile\<rparr>, Inl TypeError) \<and>
   append_op \<lparr>storage = [(''k'', PList [PStr ''a''])], disk = NoFile\<rparr> ''k'' (PInt 1)
     = (\<lparr>storage = [(''k'', PList [PStr ''a''])], disk = NoFile\<rparr>, Inl TypeError) \<and>
   map_of (storage \<lparr>storage = [(''n'', PInt 4)], disk = NoFile\<rparr>) ''n'' = Some (PInt 4) \<and>
   lpush \<lparr>storage = [(''n'', PInt 4)], disk = NoFile\<rparr> ''n'' (PInt 1)
     = (\<lparr>storage = [(''n'', PInt 4)], disk = NoFile\<rparr>, Inl TypeError) \<and>
   lpop \<lparr>storage = [(''n'', PInt 4)], disk = NoFile\<rparr> ''n''
     = (\<lparr>storage = [(''n'', PInt 4)], disk = NoFile\<rparr>, Inr PNone) \<and>
   lrange \<lparr>storage = [(''n'', PInt 4)], disk = NoFile\<rparr> ''n'' 0 5
     = (\<lparr>storage = [(''n'', PInt 4)], disk = NoFile\<rparr>, Inr [])"
proof -
  let ?s = "\<lparr>storage = [(''k'', PList [PStr ''a''])], disk = NoFile\<rparr>"
  let ?u = "\<lparr>storage = [(''n'', PInt 4)], disk = NoFile\<rparr>"
  have h: "map_of (storage ?s) ''k'' = Some (PList [PStr ''a''])"
    and g: "map_of (storage ?u) ''n'' = Some (PInt 4)" by simp_all
  show ?thesis
    using h g type_enforcement [OF h, of "''a''" "PInt 1" 2 0 0 5]
      type_enforcement [OF g, of "''a''" "PInt 1" 2 0 0 5]
    by simp
qed

subsection \<open>Saving and reloading\<close>





































subsection \<open>A hash with a field named \<^verbatim>\<open>expires_at\<close>\<close>

lemma hset_ok:
  assumes "hset s key field val = (s', Inr ())"
  shows "\<exists>d. map_of (storage s') key = Some (PDict d) \<and> map_of d field = Some val"
proof -
  let ?s1 = "if map_of (storage s) key = None
             then s\<lparr>storage := AList.update key (PDict []) (storage s)\<rparr> else s"
  from assms obtain d where
    "save_return (?s1\<lparr>storage := AList.update key (PDict (AList.update field val d)) (storage ?s1)\<rparr>) ()
       = (s', Inr ())"
    unfolding hset_def Let_def
    by (auto split: option.splits pyval.splits if_splits)
  then have "storage s' = AList.update key (PDict (AList.update field val d)) (storage ?s1)"
    using save_return_storage
      [of "?s1\<lparr>storage := AList.update key (PDict (AList.update field val d)) (storage ?s1)\<rparr>" "()"]
    by simp
  then show ?thesis by (simp add: map_of_update_same)
qed

text \<open>
  C9, as the claim states it, fails for a hash that has the field \<^verbatim>\<open>expires_at\<close> and no
  field \<^verbatim>\<open>value\<close>: with a timestamp in the future, \<^verbatim>\<open>get\<close> raises \<^verbatim>\<open>KeyError\<close> instead of
  returning anything.
\<close>

theorem get_hash_without_value_counterexample:
  "hset \<lparr>storage = [], disk = NoFile\<rparr> ''k'' ''expires_at'' (PInt 100)
     = (\<lparr>storage = [(''k'', PDict [(''expires_at'', PInt 100)])],
         disk = Content (JObj [(''k'', JObj [(''expires_at'', JInt 100)])])\<rparr>, Inr ()) \<and>
   get 50 \<lparr>storage = [(''k'', PDict [(''expires_at'', PInt 100)])],
         disk = Content (JObj [(''k'', JObj [(''expires_at'', JInt 100)])])\<rparr> ''k''
     = (\<lparr>storage = [(''k'', PDict [(''expires_at'', PInt 100)])],
         disk = Content (JObj [(''k'', JObj [(''expires_at'', JInt 100)])])\<rparr>, Inl KeyError)"
  by (simp add: hset_def get_def save_return_def save_storage_def snapshot_def save_entry_def)

text \<open>
  C9, amended. Let the key hold a dict, such as a hash built by \<^verbatim>\<open>hset\<close>, with a field
  \<^verbatim>\<open>expires_at\<close> that holds a number \<open>t\<close>. When \<open>t\<close> lies in the past, \<^verbatim>\<open>get\<close> deletes the key,
  and when the remaining store can be written it writes the snapshot and returns
  \<^verbatim>\<open>None\<close>. When \<open>t\<close> lies in the future, \<^verbatim>\<open>get\<close> returns the field \<^verbatim>\<open>value\<close> of the hash, not
  the hash, and raises \<^verbatim>\<open>KeyError\<close> when the hash has no such field. \<^verbatim>\<open>expire\<close> overwrites
  the field \<^verbatim>\<open>expires_at\<close> in place. A hash to which \<^verbatim>\<open>hset\<close> has just given the field
  \<^verbatim>\<open>expires_at\<close> holds the value given.
\<close>

theorem expiry_field_confusion:
  assumes "map_of (storage s) key = Some (PDict d)"
    and "map_of d ''expires_at'' = Some e" and "num_of e = Some t"
  shows "(t < now \<longrightarrow>
            storage (fst (get now s key)) = AList.delete key (storage s) \<and>
            (\<forall>j. snapshot (AList.delete key (storage s)) = Inr j \<longrightarrow>
                 get now s key =
                   (s\<lparr>storage := AList.delete key (storage s), disk := Content j\<rparr>, Inr PNone))) \<and>
         (now < t \<longrightarrow>
            (\<forall>v. map_of d ''value'' = Some v \<longrightarrow> get now s key = (s, Inr v)) \<and>
            (map_of d ''value'' = None \<longrightarrow> get now s key = (s, Inl KeyError))) \<and>
         storage (fst (expire now s key ttl)) =
           AList.update key (PDict (AList.update ''expires_at'' (PFloat (now + ttl)) d)) (storage s) \<and>
         (\<forall>s0 val. hset s0 key ''expires_at'' val = (s, Inr ()) \<longrightarrow> val = e)"
proof (intro conjI impI allI)
  assume past: "t < now"
  have g: "get now s key = save_return (s\<lparr>storage := AList.delete key (storage s)\<rparr>) PNone"
    using assms past by (simp add: get_def)
  show "storage (fst (get now s key)) = AList.delete key (storage s)"
    by (simp add: g save_return_storage)
  fix j assume "snapshot (AList.delete key (storage s)) = Inr j"
  then show "get now s key =
      (s\<lparr>storage := AList.delete key (storage s), disk := Content j\<rparr>, Inr PNone)"
    by (simp add: g save_return_ok)
next
  fix v assume "now < t" and "map_of d ''value'' = Some v"
  then show "get now s key = (s, Inr v)" using assms by (simp add: get_def)
next
  assume "now < t" and "map_of d ''value'' = None"
  then show "get now s key = (s, Inl KeyError)" using assms by (simp add: get_def)
next
  have "''expires_at'' \<in> fst ` set d" using assms(2) by (auto dest: map_of_SomeD intro: rev_image_eqI)
  then have "has_expiry (PDict d)" by (simp add: has_expiry_def)
  then show "storage (fst (expire now s key ttl)) =
      AList.update key (PDict (AList.update ''expires_at'' (PFloat (now + ttl)) d)) (storage s)"
    using assms(1) by (simp add: expire_def save_return_storage)
next
  fix s0 val assume "hset s0 key ''expires_at'' val = (s, Inr ())"
  from hset_ok [OF this] assms show "val = e" by auto
qed

text \<open>
  The amended statement at a hash built by two calls of \<^verbatim>\<open>hset\<close>, read at the times 150
  and 50, and given a new time-to-live of 10 at the time 50.
\<close>

theorem expiry_field_confusion_witness:
  "hset (fst (hset \<lparr>storage = [], disk = NoFile\<rparr> ''k'' ''value'' (PStr ''x''))) ''k'' ''expires_at'' (PInt 100)
     = (\<lparr>storage = [(''k'', PDict [(''value'', PStr ''x''), (''expires_at'', PInt 100)])],
         disk = Content (JObj [(''k'', JObj [(''value'', JStr ''x''), (''expires_at'', JInt 100)])])\<rparr>,
        Inr ()) \<and>
   get 150 \<lparr>storage = [(''k'', PDict [(''value'', PStr ''x''), (''expires_at'', PInt 100)])],
         disk = Content (JObj [(''k'', JObj [(''value'', JStr ''x''), (''expires_at'', JInt 100)])])\<rparr> ''k''
     = (\<lparr>storage = [], disk = Content (JObj [])\<rparr>, Inr PNone) \<and>
   get 50 \<lparr>storage = [(''k'', PDict [(''value'', PStr ''x''), (''expires_at'', PInt 100)])],
         disk = Content (JObj [(''k'', JObj [(''value'', JStr ''x''), (''expires_at'', JInt 100)])])\<rparr> ''k''
     = (\<lparr>storage = [(''k'', PDict [(''value'', PStr ''x''), (''expires_at'', PInt 100)])],
         disk = Content (JObj [(''k'', JObj [(''value'', JStr ''x''), (''expires_at'', JInt 100)])])\<rparr>,
        Inr (PStr ''x'')) \<and>
   storage (fst (expire 50 \<lparr>storage = [(''k'', PDict [(''value'', PStr ''x''), (''expires_at'', PInt 100)])],
         disk = Content (JObj [(''k'', JObj [(''value'', JStr ''x''), (''expires_at'', JInt 100)])])\<rparr> ''k'' 10))
     = [(''k'', PDict [(''value'', PStr ''x''), (''expires_at'', PFloat 60)])]"
proof -
  let ?d = "[(''value'', PStr ''x''), (''expires_at'', PInt 100)]"
  let ?s = "\<lparr>storage = [(''k'', PDict ?d)],
         disk = Content (JObj [(''k'', JObj [(''value'', JStr ''x''), (''expires_at'', JInt 100)])])\<rparr>"
  have b: "hset (fst (hset \<lparr>storage = [], disk = NoFile\<rparr> ''k'' ''value'' (PStr ''x''))) ''k'' ''expires_at'' (PInt 100)
      = (?s, Inr ())"
    by (simp add: hset_def save_return_def save_storage_def snapshot_def save_entry_def)
  have h1: "map_of (storage ?s) ''k'' = Some (PDict ?d)"
    and h2: "map_of ?d ''expires_at'' = Some (PInt 100)"
    and h3: "num_of (PInt 100) = Some 100"
    and h4: "map_of ?d ''value'' = Some (PStr ''x'')"
    and h5: "snapshot (AList.delete ''k'' (storage ?s)) = Inr (JObj [])"
    by (simp_all add: snapshot_def)
  have past: "get 150 ?s ''k'' = (?s\<lparr>storage := AList.delete ''k'' (storage ?s), disk := Content (JObj [])\<rparr>, Inr PNone)"
    using expiry_field_confusion [OF h1 h2 h3, of 150 10] h5 by simp
  have live: "get 50 ?s ''k'' = (?s, Inr (PStr ''x''))"
    using expiry_field_confusion [OF h1 h2 h3, of 50 10] h4 by simp
  have ex: "storage (fst (expire 50 ?s ''k'' 10)) =
      AList.update ''k'' (PDict (AList.update ''expires_at'' (PFloat (50 + 10)) ?d)) (storage ?s)"
    using expiry_field_confusion [OF h1 h2 h3, of 50 10] by blast
  show ?thesis
    using b past live ex by simp
qed

end
